theory Spec2Isabelle
  imports Main "HOL-Library.Word"
begin

unbundle bit_operations_syntax

section \<open>Go values behind \<open>interface{}\<close>\<close>

text \<open>
  The metric API takes and stores values of type \<open>interface{}\<close> and dispatches on the
  dynamic type. A value is modelled by its dynamic type and its payload. Go's \<open>int\<close> and
  \<open>uint\<close> are the 64-bit ones of the amd64 port (the test file of the package keeps the
  tests that need 64 bits in a file of their own for that port). Floating-point payloads
  are kept as their IEEE-754 bit patterns; the code under study never inspects them.
\<close>

datatype gval =
    VInt "64 word"
  | VInt32 "32 word"
  | VInt64 "64 word"
  | VUint "64 word"
  | VUint32 "32 word"
  | VUint64 "64 word"
  | VFloat32 "32 word"
  | VFloat64 "64 word"
  | VString string
  | VNil

section \<open>Metric types\<close>

text \<open>\<open>type MetricType int32\<close> with its named constants.\<close>

type_synonym MetricType = "32 word"

definition NoSupportType :: MetricType where "NoSupportType = - 1"
definition Int32Type :: MetricType where "Int32Type = 0"
definition Uint32Type :: MetricType where "Uint32Type = 1"
definition Int64Type :: MetricType where "Int64Type = 2"
definition Uint64Type :: MetricType where "Uint64Type = 3"
definition FloatType :: MetricType where "FloatType = 4"
definition DoubleType :: MetricType where "DoubleType = 5"
definition StringType :: MetricType where "StringType = 6"
definition AggregateType :: MetricType where "AggregateType = 7"
definition AggregateStaticType :: MetricType where "AggregateStaticType = 8"
definition EventType :: MetricType where "EventType = 9"
definition HighresEventType :: MetricType where "HighresEventType = 10"
definition UnknownType :: MetricType where "UnknownType = 255"

text \<open>The limits of package \<open>math\<close> that the code compares against.\<close>

definition MaxInt32 :: int where "MaxInt32 = 2 ^ 31 - 1"
definition MinInt32 :: int where "MinInt32 = - (2 ^ 31)"
definition MaxUint32 :: int where "MaxUint32 = 2 ^ 32 - 1"
definition MaxInt64 :: int where "MaxInt64 = 2 ^ 63 - 1"
definition MinInt64 :: int where "MinInt64 = - (2 ^ 63)"
definition MaxUint64 :: int where "MaxUint64 = 2 ^ 64 - 1"

text \<open>
  \<open>MetricType.IsCompatible\<close>. The outer \<open>case\<close> is the type switch; the inner chain of
  conditionals is the expression-less \<open>switch\<close> on the \<open>int\<close>, in the order of the source.
  \<open>uint32(v)\<close> is the truncating conversion (\<open>ucast\<close>), \<open>int64(v)\<close> is the identity.
\<close>

definition IsCompatible :: "MetricType \<Rightarrow> gval \<Rightarrow> bool" where
  "IsCompatible m val =
     (case val of
        VInt v \<Rightarrow>
          (if sint v < 0 then m = Int32Type \<or> m = Int64Type
           else if sint v \<le> MaxInt32 then
             m = Int32Type \<or> m = Int64Type \<or> m = Uint32Type \<or> m = Uint64Type
           else if uint (ucast v :: 32 word) \<le> MaxUint32 then
             m = Int64Type \<or> m = Uint32Type \<or> m = Uint64Type
           else if sint v \<le> MaxInt64 then m = Int64Type \<or> m = Uint64Type
           else False)
      | VInt32 _ \<Rightarrow> m = Int32Type
      | VInt64 _ \<Rightarrow> m = Int64Type
      | VUint v \<Rightarrow>
          (if uint v > MaxUint32 then m = Uint64Type
           else m = Uint32Type \<or> m = Uint64Type)
      | VUint32 _ \<Rightarrow> m = Uint32Type
      | VUint64 _ \<Rightarrow> m = Uint64Type
      | _ \<Rightarrow> False)"

text \<open>
  \<open>bytebuffer.Buffer\<close> is an interface declared elsewhere in the repository;
  \<open>WriteVal\<close> only calls four of its methods. They are taken as parameters: a buffer
  state \<open>'b\<close> and one state transformer per method.
\<close>

record 'b Buffer =
  WriteInt32 :: "32 word \<Rightarrow> 'b \<Rightarrow> 'b"
  WriteInt64 :: "64 word \<Rightarrow> 'b \<Rightarrow> 'b"
  WriteUint32 :: "32 word \<Rightarrow> 'b \<Rightarrow> 'b"
  WriteUint64 :: "64 word \<Rightarrow> 'b \<Rightarrow> 'b"

text \<open>
  \<open>MetricType.WriteVal\<close>. The method has no result; the model returns the buffer state
  after the call. A \<open>switch\<close> with no matching case and no default does nothing.
\<close>

definition WriteVal :: "'b Buffer \<Rightarrow> MetricType \<Rightarrow> gval \<Rightarrow> 'b \<Rightarrow> 'b" where
  "WriteVal B m val b =
     (case val of
        VInt v \<Rightarrow>
          (if m = Int32Type then WriteInt32 B (ucast v) b
           else if m = Int64Type then WriteInt64 B v b
           else if m = Uint32Type then WriteUint32 B (ucast v) b
           else if m = Uint64Type then WriteUint64 B v b
           else b)
      | VInt32 v \<Rightarrow> WriteInt32 B v b
      | VInt64 v \<Rightarrow> WriteInt64 B v b
      | VUint v \<Rightarrow>
          (if m = Uint32Type then WriteUint32 B (ucast v) b
           else if m = Uint64Type then WriteUint64 B v b
           else b)
      | VUint32 v \<Rightarrow> WriteUint32 B v b
      | VUint64 v \<Rightarrow> WriteUint64 B v b
      | _ \<Rightarrow> b)"

section \<open>Units\<close>

text \<open>
  \<open>SpaceUnit\<close>, \<open>TimeUnit\<close> and \<open>CountUnit\<close> are three named \<open>uint32\<close> types; their
  constants are declared with \<open>iota\<close>, which counts the lines of one \<open>const\<close> block from
  zero. Each definition below is the constant's declaring expression with the value of
  \<open>iota\<close> on its line.
\<close>

type_synonym SpaceUnit = "32 word"
type_synonym TimeUnit = "32 word"
type_synonym CountUnit = "32 word"

definition ByteUnit :: SpaceUnit where "ByteUnit = push_bit 28 1 OR push_bit 16 0"
definition KilobyteUnit :: SpaceUnit where "KilobyteUnit = push_bit 28 1 OR push_bit 16 1"
definition MegabyteUnit :: SpaceUnit where "MegabyteUnit = push_bit 28 1 OR push_bit 16 2"
definition GigabyteUnit :: SpaceUnit where "GigabyteUnit = push_bit 28 1 OR push_bit 16 3"
definition TerabyteUnit :: SpaceUnit where "TerabyteUnit = push_bit 28 1 OR push_bit 16 4"
definition PetabyteUnit :: SpaceUnit where "PetabyteUnit = push_bit 28 1 OR push_bit 16 5"
definition ExabyteUnit :: SpaceUnit where "ExabyteUnit = push_bit 28 1 OR push_bit 16 6"

definition NanosecondUnit :: TimeUnit where "NanosecondUnit = push_bit 24 1 OR push_bit 12 0"
definition MicrosecondUnit :: TimeUnit where "MicrosecondUnit = push_bit 24 1 OR push_bit 12 1"
definition MillisecondUnit :: TimeUnit where "MillisecondUnit = push_bit 24 1 OR push_bit 12 2"
definition SecondUnit :: TimeUnit where "SecondUnit = push_bit 24 1 OR push_bit 12 3"
definition MinuteUnit :: TimeUnit where "MinuteUnit = push_bit 24 1 OR push_bit 12 4"
definition HourUnit :: TimeUnit where "HourUnit = push_bit 24 1 OR push_bit 12 5"

definition OneUnit :: CountUnit where "OneUnit = push_bit 20 1 OR push_bit 8 0"

text \<open>
  The interface \<open>MetricUnit\<close> is implemented by the three unit types; a value of the
  interface is one of them, tagged. \<open>PMAPI\<close> is the conversion \<open>uint32(s)\<close> in each.
\<close>

datatype MetricUnit = Space SpaceUnit | Time TimeUnit | Count CountUnit

fun PMAPI :: "MetricUnit \<Rightarrow> 32 word" where
  "PMAPI (Space s) = s"
| "PMAPI (Time t) = t"
| "PMAPI (Count c) = c"

text \<open>The constants the source declares, in the order of their declaration.\<close>

definition space_units :: "MetricUnit list" where
  "space_units = map Space
     [ByteUnit, KilobyteUnit, MegabyteUnit, GigabyteUnit, TerabyteUnit, PetabyteUnit,
      ExabyteUnit]"

definition time_units :: "MetricUnit list" where
  "time_units = map Time
     [NanosecondUnit, MicrosecondUnit, MillisecondUnit, SecondUnit, MinuteUnit, HourUnit]"

definition count_units :: "MetricUnit list" where
  "count_units = map Count [OneUnit]"

text \<open>
  The fields of the packed 32-bit units word as the specification lays them out: three
  4-bit dimension fields whose lowest bits are 28, 24 and 20, three 4-bit scale fields
  at bits 16--19, 12--15 and 8--11, and the eight low bits unused. \<open>unit_fields\<close> reads
  a word as the seven fields, highest first.
\<close>

definition field4 :: "nat \<Rightarrow> 32 word \<Rightarrow> nat" where
  "field4 lo w = unat (take_bit 4 (drop_bit lo w))"

definition unit_fields :: "32 word \<Rightarrow> nat \<times> nat \<times> nat \<times> nat \<times> nat \<times> nat \<times> nat" where
  "unit_fields w =
     (field4 28 w, field4 24 w, field4 20 w, field4 16 w, field4 12 w, field4 8 w,
      unat (take_bit 8 w))"

section \<open>Metrics\<close>

type_synonym MetricSemantics = "32 word"

definition NoSemantics :: MetricSemantics where "NoSemantics = 0"
definition CounterSemantics :: MetricSemantics where "CounterSemantics = 1"
definition InstantSemantics :: MetricSemantics where "InstantSemantics = 2"
definition DiscreteSemantics :: MetricSemantics where "DiscreteSemantics = 3"

definition PCPMetricItemBitLength :: nat where "PCPMetricItemBitLength = 10"

text \<open>
  \<open>pcpMetricDesc\<close> and \<open>PCPMetric\<close>. The types \<open>InstanceDomain\<close> and \<open>PCPString\<close> are
  declared elsewhere in the repository and stay type parameters \<open>'i\<close> and \<open>'s\<close>. The fields
  carry the receiver's name as a prefix (\<open>md\<close>, \<open>m\<close>), since both structs have a field
  \<open>offset\<close> and several field names are one letter long. The embedded \<open>sync.RWMutex\<close> has
  no state between two calls and is left out of the record; taking it shows in the
  events of \<open>Set\<close> below.
\<close>

record ('i, 's) pcpMetricDesc =
  md_id :: "32 word"
  md_name :: string
  md_indom :: 'i
  md_t :: MetricType
  md_sem :: MetricSemantics
  md_u :: MetricUnit
  md_offset :: "64 word"
  md_shortDescription :: 's
  md_longDescription :: 's

record ('i, 's) PCPMetric =
  m_val :: gval
  m_desc :: "('i, 's) pcpMetricDesc"
  m_offset :: "64 word"

text \<open>
  \<open>newpcpMetricDesc\<close> and \<open>NewPCPMetric\<close>. The functions \<open>getHash\<close> and \<open>NewPCPString\<close>
  are declared elsewhere in the repository and are parameters. The constructor returns an
  error or the metric; fields the composite literal leaves out are zero.
\<close>

definition newpcpMetricDesc ::
  "(string \<Rightarrow> nat \<Rightarrow> 32 word) \<Rightarrow> (string \<Rightarrow> 's) \<Rightarrow> string \<Rightarrow> 'i \<Rightarrow> MetricType \<Rightarrow>
   MetricSemantics \<Rightarrow> MetricUnit \<Rightarrow> string \<Rightarrow> string \<Rightarrow> ('i, 's) pcpMetricDesc" where
  "newpcpMetricDesc getHash NewPCPString n i t s u short long =
     \<lparr>md_id = getHash n PCPMetricItemBitLength, md_name = n, md_indom = i, md_t = t,
      md_sem = s, md_u = u, md_offset = 0,
      md_shortDescription = NewPCPString short, md_longDescription = NewPCPString long\<rparr>"

definition NewPCPMetric ::
  "(string \<Rightarrow> nat \<Rightarrow> 32 word) \<Rightarrow> (string \<Rightarrow> 's) \<Rightarrow> gval \<Rightarrow> string \<Rightarrow> 'i \<Rightarrow> MetricType \<Rightarrow>
   MetricSemantics \<Rightarrow> MetricUnit \<Rightarrow> string \<Rightarrow> string \<Rightarrow> string + ('i, 's) PCPMetric" where
  "NewPCPMetric getHash NewPCPString val name indom t s u short long =
     (if \<not> IsCompatible t val
      then Inl ''the passed MetricType and values are incompatible''
      else Inr \<lparr>m_val = val,
                m_desc = newpcpMetricDesc getHash NewPCPString name indom t s u short long,
                m_offset = 0\<rparr>)"

definition Val :: "('i, 's) PCPMetric \<Rightarrow> gval" where
  "Val m = m_val m"

definition Type :: "('i, 's) PCPMetric \<Rightarrow> MetricType" where
  "Type m = md_t (m_desc m)"

text \<open>
  \<open>PCPMetric.Set\<close>. The result is the metric after the call, the events the call performed
  on the metric in their order, and the returned error (\<open>None\<close> is \<open>nil\<close>). The comparison
  \<open>val != m.val\<close> of two interface values is only reached with a \<open>val\<close> of an integer
  dynamic type, where it compares dynamic type and payload, as the equality of \<open>gval\<close>
  does.
\<close>

datatype event = Lock | Store gval | Unlock

definition Set ::
  "('i, 's) PCPMetric \<Rightarrow> gval \<Rightarrow> ('i, 's) PCPMetric \<times> event list \<times> string option" where
  "Set m val =
     (if \<not> IsCompatible (md_t (m_desc m)) val
      then (m, [], Some ''the value is incompatible with this metrics MetricType'')
      else if val \<noteq> m_val m
      then (m\<lparr>m_val := val\<rparr>, [Lock, Store val, Unlock], None)
      else (m, [], None))"

text \<open>
  The metrics a program can hold: those \<open>NewPCPMetric\<close> returned, after any number of
  calls of \<open>Set\<close>.
\<close>

inductive reachable :: "('i, 's) PCPMetric \<Rightarrow> bool" where
  new: "NewPCPMetric getHash NewPCPString val name indom t s u short long = Inr m
        \<Longrightarrow> reachable m"
| set: "reachable m \<Longrightarrow> reachable (fst (Set m val))"

section \<open>The decoder of package mmvdump\<close>

type_synonym byte = "8 word"

text \<open>
  How a call of the decoder ends when it does not return a value: with a returned
  \<open>error\<close>, with a run-time panic (in a goroutine it ends the program), or blocked for
  ever in \<open>wg.Wait()\<close>. The text of an error that the source formats with \<open>fmt.Errorf\<close>
  is cut to the constant part before the first verb.
\<close>

datatype failure = Error string | Panic string | Deadlock

text \<open>
  The struct types \<open>Header\<close> and \<open>Toc\<close> and the length constants are declared
  elsewhere in the repository. The records hold the fields the functions read (\<open>Magic\<close>, \<open>G1\<close>,
  \<open>G2\<close>, \<open>Toc\<close>; \<open>Type\<close>, \<open>Count\<close>, \<open>Offset\<close>) and the others the specification lists.
  \<open>Toc\<close> and \<open>Count\<close> are \<open>int32\<close>, as the calls that pass them on require; the fields
  of \<open>Toc\<close> carry the name of the struct as a prefix. The lengths
  and the two pointer casts \<open>(*Header)(unsafe.Pointer(&data[0]))\<close> and
  \<open>(*Toc)(unsafe.Pointer(&data[offset]))\<close>, which read a struct off the bytes from the
  addressed one on, are the parameters collected in \<open>layout\<close>.
\<close>

record Header =
  Magic :: "byte list"
  Version :: byte
  G1 :: "64 word"
  G2 :: "64 word"
  Process :: "32 word"
  Cluster :: "32 word"
  Flag :: "32 word"
  Toc :: "32 word"

record Toc =
  Toc_Type :: "32 word"
  Toc_Count :: "32 word"
  Toc_Offset :: "64 word"

record layout =
  HeaderLength :: "64 word"
  TocLength :: "64 word"
  InstanceLength :: "64 word"
  InstanceDomainLength :: "64 word"
  MetricLength :: "64 word"
  ValueLength :: "64 word"
  StringLength :: "64 word"
  asHeader :: "byte list \<Rightarrow> Header"
  asToc :: "byte list \<Rightarrow> Toc"

text \<open>
  Modelled from the spec: the constants \<open>TocIndoms\<close> to \<open>TocStrings\<close> are declared
  elsewhere in the repository; the specification numbers the section types
  \<open>{Indoms=1, Instances=2, Metrics=3, Values=4, Strings=5}\<close>.
\<close>

definition TocIndoms :: "32 word" where "TocIndoms = 1"
definition TocInstances :: "32 word" where "TocInstances = 2"
definition TocMetrics :: "32 word" where "TocMetrics = 3"
definition TocValues :: "32 word" where "TocValues = 4"
definition TocStrings :: "32 word" where "TocStrings = 5"

definition MMV :: "byte list" where
  "MMV = [0x4D, 0x4D, 0x56]"

text \<open>
  \<open>readHeader\<close>. \<open>uint64(len(data))\<close> is \<open>of_nat (length data)\<close>; \<open>&data[0]\<close> panics on an
  empty slice.
\<close>

definition readHeader :: "layout \<Rightarrow> byte list \<Rightarrow> failure + Header" where
  "readHeader L data =
     (if (of_nat (length data) :: 64 word) < HeaderLength L
      then Inl (Error ''file too small to contain a valid Header'')
      else if data = [] then Inl (Panic ''index out of range'')
      else let header = asHeader L data in
        if take 3 (Magic header) \<noteq> MMV then Inl (Error ''Bad Magic: '')
        else if G1 header \<noteq> G2 header then Inl (Error ''Mismatched version numbers, '')
        else Inr header)"

text \<open>
  The seven record readers. The sum \<open>offset + TocLength\<close> is one of \<open>uint64\<close> and wraps;
  \<open>&data[offset]\<close> panics when \<open>offset\<close> is no index of \<open>data\<close>. The structs other than
  \<open>Header\<close> and \<open>Toc\<close> are never read by the decoder: the pointer it returns is modelled
  by the bytes it points at, as many as the record is long.
\<close>

definition readToc :: "layout \<Rightarrow> byte list \<Rightarrow> 64 word \<Rightarrow> failure + Toc" where
  "readToc L data offset =
     (if (of_nat (length data) :: 64 word) < offset + TocLength L
      then Inl (Error ''Incomplete/Partially Written TOC'')
      else if unat offset < length data then Inr (asToc L (drop (unat offset) data))
      else Inl (Panic ''index out of range''))"

definition readInstance :: "layout \<Rightarrow> byte list \<Rightarrow> 64 word \<Rightarrow> failure + byte list" where
  "readInstance L data offset =
     (if (of_nat (length data) :: 64 word) < offset + InstanceLength L
      then Inl (Error ''Incomplete/Partially Written Instance'')
      else if unat offset < length data
      then Inr (take (unat (InstanceLength L)) (drop (unat offset) data))
      else Inl (Panic ''index out of range''))"

definition readInstanceDomain :: "layout \<Rightarrow> byte list \<Rightarrow> 64 word \<Rightarrow> failure + byte list" where
  "readInstanceDomain L data offset =
     (if (of_nat (length data) :: 64 word) < offset + InstanceDomainLength L
      then Inl (Error ''Incomplete/Partially Written InstanceDomain'')
      else if unat offset < length data
      then Inr (take (unat (InstanceDomainLength L)) (drop (unat offset) data))
      else Inl (Panic ''index out of range''))"

definition readMetric :: "layout \<Rightarrow> byte list \<Rightarrow> 64 word \<Rightarrow> failure + byte list" where
  "readMetric L data offset =
     (if (of_nat (length data) :: 64 word) < offset + MetricLength L
      then Inl (Error ''Incomplete/Partially Written Metric'')
      else if unat offset < length data
      then Inr (take (unat (MetricLength L)) (drop (unat offset) data))
      else Inl (Panic ''index out of range''))"

definition readValue :: "layout \<Rightarrow> byte list \<Rightarrow> 64 word \<Rightarrow> failure + byte list" where
  "readValue L data offset =
     (if (of_nat (length data) :: 64 word) < offset + ValueLength L
      then Inl (Error ''Incomplete/Partially Written Value'')
      else if unat offset < length data
      then Inr (take (unat (ValueLength L)) (drop (unat offset) data))
      else Inl (Panic ''index out of range''))"

definition readString :: "layout \<Rightarrow> byte list \<Rightarrow> 64 word \<Rightarrow> failure + byte list" where
  "readString L data offset =
     (if (of_nat (length data) :: 64 word) < offset + StringLength L
      then Inl (Error ''Incomplete/Partially Written String'')
      else if unat offset < length data
      then Inr (take (unat (StringLength L)) (drop (unat offset) data))
      else Inl (Panic ''index out of range''))"

text \<open>
  \<open>readTocs\<close>. \<open>make([]*Toc, count)\<close> panics on a negative count. The loop runs \<open>count\<close>
  times with \<open>i\<close> from 0; \<open>uint64(i)\<close> extends the sign of the \<open>int32\<close>.
\<close>

fun readTocs_loop :: "layout \<Rightarrow> byte list \<Rightarrow> 32 word \<Rightarrow> nat \<Rightarrow> failure + Toc list" where
  "readTocs_loop L data i 0 = Inr []"
| "readTocs_loop L data i (Suc n) =
     (case readToc L data (HeaderLength L + scast i * TocLength L) of
        Inl f \<Rightarrow> Inl f
      | Inr t \<Rightarrow>
          (case readTocs_loop L data (i + 1) n of
             Inl f \<Rightarrow> Inl f
           | Inr ts \<Rightarrow> Inr (t # ts)))"

definition readTocs :: "layout \<Rightarrow> byte list \<Rightarrow> 32 word \<Rightarrow> failure + Toc list" where
  "readTocs L data count =
     (if sint count < 0 then Inl (Panic ''makeslice: len out of range'')
      else readTocs_loop L data 0 (nat (sint count)))"

text \<open>
  \<open>readInstances\<close>, \<open>readInstanceDomains\<close>, \<open>readMetrics\<close>, \<open>readValues\<close> and
  \<open>readStrings\<close> are the same function up to the reader they call and the stride.
  \<open>wg.Add(int(count))\<close> panics on a negative count. The loop starts one goroutine per
  record, passing it the offset, which advances by the stride; the goroutines are run
  here one after the other in the order they are started. A goroutine reads its record
  only if no error is recorded yet, and stores the record under its offset or records
  the error; a panic in a goroutine ends the program. After \<open>wg.Wait()\<close> the function
  returns \<open>nil\<close> and the error if one is recorded, the map otherwise.
\<close>

fun goroutines ::
  "(64 word \<Rightarrow> failure + 'r) \<Rightarrow> 64 word \<Rightarrow> 64 word \<Rightarrow> nat \<Rightarrow>
   (64 word \<rightharpoonup> 'r) \<times> string option \<Rightarrow> failure + (64 word \<rightharpoonup> 'r) \<times> string option" where
  "goroutines rd stride offset 0 st = Inr st"
| "goroutines rd stride offset (Suc n) (m, err) =
     (case err of
        Some e \<Rightarrow> goroutines rd stride (offset + stride) n (m, err)
      | None \<Rightarrow>
          (case rd offset of
             Inr r \<Rightarrow> goroutines rd stride (offset + stride) n (m(offset \<mapsto> r), None)
           | Inl (Error e) \<Rightarrow> goroutines rd stride (offset + stride) n (m, Some e)
           | Inl f \<Rightarrow> Inl f))"

definition readRecords ::
  "(64 word \<Rightarrow> failure + 'r) \<Rightarrow> 64 word \<Rightarrow> 64 word \<Rightarrow> 32 word \<Rightarrow> failure + (64 word \<rightharpoonup> 'r)" where
  "readRecords rd stride offset count =
     (if sint count < 0 then Inl (Panic ''sync: negative WaitGroup counter'')
      else
        (case goroutines rd stride offset (nat (sint count)) (Map.empty, None) of
           Inl f \<Rightarrow> Inl f
         | Inr (m, Some e) \<Rightarrow> Inl (Error e)
         | Inr (m, None) \<Rightarrow> Inr m))"

definition readInstances ::
  "layout \<Rightarrow> byte list \<Rightarrow> 64 word \<Rightarrow> 32 word \<Rightarrow> failure + (64 word \<rightharpoonup> byte list)" where
  "readInstances L data offset count =
     readRecords (readInstance L data) (InstanceLength L) offset count"

definition readInstanceDomains ::
  "layout \<Rightarrow> byte list \<Rightarrow> 64 word \<Rightarrow> 32 word \<Rightarrow> failure + (64 word \<rightharpoonup> byte list)" where
  "readInstanceDomains L data offset count =
     readRecords (readInstanceDomain L data) (InstanceDomainLength L) offset count"

definition readMetrics ::
  "layout \<Rightarrow> byte list \<Rightarrow> 64 word \<Rightarrow> 32 word \<Rightarrow> failure + (64 word \<rightharpoonup> byte list)" where
  "readMetrics L data offset count =
     readRecords (readMetric L data) (MetricLength L) offset count"

definition readValues ::
  "layout \<Rightarrow> byte list \<Rightarrow> 64 word \<Rightarrow> 32 word \<Rightarrow> failure + (64 word \<rightharpoonup> byte list)" where
  "readValues L data offset count =
     readRecords (readValue L data) (ValueLength L) offset count"

definition readStrings ::
  "layout \<Rightarrow> byte list \<Rightarrow> 64 word \<Rightarrow> 32 word \<Rightarrow> failure + (64 word \<rightharpoonup> byte list)" where
  "readStrings L data offset count =
     readRecords (readString L data) (StringLength L) offset count"

text \<open>
  \<open>readComponents\<close>. Its ten named results start as \<open>nil\<close>. Each TOC entry of a known
  type starts a goroutine that assigns one map and one error from the section reader's
  two results; an entry whose type matches no case starts none, so that its share of
  \<open>wg.Add(len(tocs))\<close> is never taken back and \<open>wg.Wait()\<close> does not return. The
  goroutines are again run one after the other in the order of the TOC entries.
\<close>

record Components =
  c_metrics :: "(64 word \<rightharpoonup> byte list) option"
  c_values :: "(64 word \<rightharpoonup> byte list) option"
  c_instances :: "(64 word \<rightharpoonup> byte list) option"
  c_indoms :: "(64 word \<rightharpoonup> byte list) option"
  c_strings :: "(64 word \<rightharpoonup> byte list) option"
  ierr :: "string option"
  inerr :: "string option"
  merr :: "string option"
  verr :: "string option"
  serr :: "string option"

definition no_components :: Components where
  "no_components =
     \<lparr>c_metrics = None, c_values = None, c_instances = None, c_indoms = None,
      c_strings = None, ierr = None, inerr = None, merr = None, verr = None, serr = None\<rparr>"

text \<open>
  The two results \<open>(map, err)\<close> of a section reader as the pair the goroutine assigns;
  a panic or a block passes through.
\<close>

fun returned :: "failure + 'a \<Rightarrow> failure + ('a option \<times> string option)" where
  "returned (Inr m) = Inr (Some m, None)"
| "returned (Inl (Error e)) = Inr (None, Some e)"
| "returned (Inl f) = Inl f"

fun section_goroutines :: "layout \<Rightarrow> byte list \<Rightarrow> Toc list \<Rightarrow> Components \<Rightarrow> failure + Components" where
  "section_goroutines L data [] c = Inr c"
| "section_goroutines L data (toc # tocs) c =
     (if Toc_Type toc = TocInstances then
        (case returned (readInstances L data (Toc_Offset toc) (Toc_Count toc)) of
           Inl f \<Rightarrow> Inl f
         | Inr (m, e) \<Rightarrow> section_goroutines L data tocs (c\<lparr>c_instances := m, ierr := e\<rparr>))
      else if Toc_Type toc = TocIndoms then
        (case returned (readInstanceDomains L data (Toc_Offset toc) (Toc_Count toc)) of
           Inl f \<Rightarrow> Inl f
         | Inr (m, e) \<Rightarrow> section_goroutines L data tocs (c\<lparr>c_indoms := m, inerr := e\<rparr>))
      else if Toc_Type toc = TocMetrics then
        (case returned (readMetrics L data (Toc_Offset toc) (Toc_Count toc)) of
           Inl f \<Rightarrow> Inl f
         | Inr (m, e) \<Rightarrow> section_goroutines L data tocs (c\<lparr>c_metrics := m, merr := e\<rparr>))
      else if Toc_Type toc = TocValues then
        (case returned (readValues L data (Toc_Offset toc) (Toc_Count toc)) of
           Inl f \<Rightarrow> Inl f
         | Inr (m, e) \<Rightarrow> section_goroutines L data tocs (c\<lparr>c_values := m, verr := e\<rparr>))
      else if Toc_Type toc = TocStrings then
        (case returned (readStrings L data (Toc_Offset toc) (Toc_Count toc)) of
           Inl f \<Rightarrow> Inl f
         | Inr (m, e) \<Rightarrow> section_goroutines L data tocs (c\<lparr>c_strings := m, serr := e\<rparr>))
      else section_goroutines L data tocs c)"

definition known_type :: "32 word \<Rightarrow> bool" where
  "known_type ty \<longleftrightarrow>
     ty = TocInstances \<or> ty = TocIndoms \<or> ty = TocMetrics \<or> ty = TocValues \<or> ty = TocStrings"

definition readComponents :: "layout \<Rightarrow> byte list \<Rightarrow> Toc list \<Rightarrow> failure + Components" where
  "readComponents L data tocs =
     (case section_goroutines L data tocs no_components of
        Inl f \<Rightarrow> Inl f
      | Inr c \<Rightarrow> if list_ex (\<lambda>toc. \<not> known_type (Toc_Type toc)) tocs then Inl Deadlock else Inr c)"

text \<open>\<open>Dump\<close>, with its seven results other than the error as a record.\<close>

record Dumped =
  dump_h :: Header
  dump_tocs :: "Toc list"
  dump_metrics :: "(64 word \<rightharpoonup> byte list) option"
  dump_values :: "(64 word \<rightharpoonup> byte list) option"
  dump_instances :: "(64 word \<rightharpoonup> byte list) option"
  dump_indoms :: "(64 word \<rightharpoonup> byte list) option"
  dump_strings :: "(64 word \<rightharpoonup> byte list) option"

definition Dump :: "layout \<Rightarrow> byte list \<Rightarrow> failure + Dumped" where
  "Dump L data =
     (case readHeader L data of
        Inl f \<Rightarrow> Inl f
      | Inr h \<Rightarrow>
          (case readTocs L data (Toc h) of
             Inl f \<Rightarrow> Inl f
           | Inr tocs \<Rightarrow>
               (case readComponents L data tocs of
                  Inl f \<Rightarrow> Inl f
                | Inr c \<Rightarrow>
                    (case ierr c of Some e \<Rightarrow> Inl (Error e) | None \<Rightarrow>
                    (case inerr c of Some e \<Rightarrow> Inl (Error e) | None \<Rightarrow>
                    (case merr c of Some e \<Rightarrow> Inl (Error e) | None \<Rightarrow>
                    (case verr c of Some e \<Rightarrow> Inl (Error e) | None \<Rightarrow>
                    (case serr c of Some e \<Rightarrow> Inl (Error e) | None \<Rightarrow>
                       Inr \<lparr>dump_h = h, dump_tocs = tocs, dump_metrics = c_metrics c,
                            dump_values = c_values c, dump_instances = c_instances c,
                            dump_indoms = c_indoms c, dump_strings = c_strings c\<rparr>))))))))"

subsection \<open>A concrete layout\<close>

text \<open>
  Modelled from the spec: the declarations of \<open>Header\<close>, \<open>Toc\<close> and the length constants
  are elsewhere in the repository. The specification gives the header as magic \<open>MMV\<close> and
  one version byte, \<open>G1\<close>, \<open>G2\<close>, process id, cluster id, flags and TOC count, the TOC
  entry as type, count and offset, and the records as 32 bytes (instance domain), 80
  (instance), 104 (metric), 16 (value) and 256 (string). The layout below places these
  fields in that order, little-endian and naturally aligned (the 64-bit words at
  multiples of 8), which makes the header 40 and the TOC entry 16 bytes long. It only
  serves to run the decoder on explicit byte strings.
\<close>

fun le_word :: "byte list \<Rightarrow> 'a::len word" where
  "le_word [] = 0"
| "le_word (b # bs) = ucast b + 256 * le_word bs"

definition le32 :: "nat \<Rightarrow> byte list \<Rightarrow> 32 word" where
  "le32 at bs = le_word (take 4 (drop at bs))"

definition le64 :: "nat \<Rightarrow> byte list \<Rightarrow> 64 word" where
  "le64 at bs = le_word (take 8 (drop at bs))"

definition mmv1_asHeader :: "byte list \<Rightarrow> Header" where
  "mmv1_asHeader bs =
     \<lparr>Magic = take 3 bs, Version = le_word (take 1 (drop 3 bs)),
      G1 = le64 8 bs, G2 = le64 16 bs, Process = le32 24 bs, Cluster = le32 28 bs,
      Flag = le32 32 bs, Toc = le32 36 bs\<rparr>"

definition mmv1_asToc :: "byte list \<Rightarrow> Toc" where
  "mmv1_asToc bs = \<lparr>Toc_Type = le32 0 bs, Toc_Count = le32 4 bs, Toc_Offset = le64 8 bs\<rparr>"

definition mmv1 :: layout where
  "mmv1 =
     \<lparr>HeaderLength = 40, TocLength = 16, InstanceLength = 80, InstanceDomainLength = 32,
      MetricLength = 104, ValueLength = 16, StringLength = 256,
      asHeader = mmv1_asHeader, asToc = mmv1_asToc\<rparr>"

text \<open>
  Four byte strings. \<open>zero_generation\<close> is a bare header with the magic and every other
  byte zero. \<open>one_value\<close> is a header with version 1 and both generation words 1, one
  TOC entry for the values section and the one value record it announces.
  \<open>wrapping_offset\<close> is a header and one TOC entry that announces one instance record at
  offset \<open>2^64 - 80\<close>. \<open>negative_count\<close> is a bare header whose TOC count is \<open>-1\<close>.
\<close>

definition zero_generation :: "byte list" where
  "zero_generation =
     [0x4D, 0x4D, 0x56, 0x00, 0x00, 0x00, 0x00, 0x00,
      0x00, 0x00, 0x00, 0x00, 0x00, 0x00, 0x00, 0x00,
      0x00, 0x00, 0x00, 0x00, 0x00, 0x00, 0x00, 0x00,
      0x00, 0x00, 0x00, 0x00, 0x00, 0x00, 0x00, 0x00,
      0x00, 0x00, 0x00, 0x00, 0x00, 0x00, 0x00, 0x00]"

definition one_value :: "byte list" where
  "one_value =
     [0x4D, 0x4D, 0x56, 0x01, 0x00, 0x00, 0x00, 0x00,
      0x01, 0x00, 0x00, 0x00, 0x00, 0x00, 0x00, 0x00,
      0x01, 0x00, 0x00, 0x00, 0x00, 0x00, 0x00, 0x00,
      0x00, 0x00, 0x00, 0x00, 0x00, 0x00, 0x00, 0x00,
      0x00, 0x00, 0x00, 0x00, 0x01, 0x00, 0x00, 0x00,
      0x04, 0x00, 0x00, 0x00, 0x01, 0x00, 0x00, 0x00,
      0x38, 0x00, 0x00, 0x00, 0x00, 0x00, 0x00, 0x00,
      0x07, 0x00, 0x00, 0x00, 0x00, 0x00, 0x00, 0x00,
      0x00, 0x00, 0x00, 0x00, 0x00, 0x00, 0x00, 0x00]"

definition wrapping_offset :: "byte list" where
  "wrapping_offset =
     [0x4D, 0x4D, 0x56, 0x01, 0x00, 0x00, 0x00, 0x00,
      0x01, 0x00, 0x00, 0x00, 0x00, 0x00, 0x00, 0x00,
      0x01, 0x00, 0x00, 0x00, 0x00, 0x00, 0x00, 0x00,
      0x00, 0x00, 0x00, 0x00, 0x00, 0x00, 0x00, 0x00,
      0x00, 0x00, 0x00, 0x00, 0x01, 0x00, 0x00, 0x00,
      0x02, 0x00, 0x00, 0x00, 0x01, 0x00, 0x00, 0x00,
      0xB0, 0xFF, 0xFF, 0xFF, 0xFF, 0xFF, 0xFF, 0xFF]"

definition negative_count :: "byte list" where
  "negative_count =
     [0x4D, 0x4D, 0x56, 0x01, 0x00, 0x00, 0x00, 0x00,
      0x01, 0x00, 0x00, 0x00, 0x00, 0x00, 0x00, 0x00,
      0x01, 0x00, 0x00, 0x00, 0x00, 0x00, 0x00, 0x00,
      0x00, 0x00, 0x00, 0x00, 0x00, 0x00, 0x00, 0x00,
      0x00, 0x00, 0x00, 0x00, 0xFF, 0xFF, 0xFF, 0xFF]"


text \<open>
  The goroutines that \<open>readComponents\<close> starts need not run in the order in which they
  are started. \<open>readComponents_scheduled\<close> runs them in the order \<open>order\<close>, a list of
  positions in the TOC list; each still runs to its end before the next starts. With
  the positions in increasing order it is \<open>readComponents\<close>.
\<close>

definition readComponents_scheduled ::
  "layout \<Rightarrow> byte list \<Rightarrow> Toc list \<Rightarrow> nat list \<Rightarrow> failure + Components" where
  "readComponents_scheduled L data tocs order =
     readComponents L data (map (\<lambda>i. tocs ! i) order)"

text \<open>
  A TOC list with two entries for the values section, to go with \<open>one_value\<close>: the
  record of the first lies within the 72 bytes, that of the second reaches 8 bytes past
  their end.
\<close>

definition two_value_tocs :: "Toc list" where
  "two_value_tocs =
     [\<lparr>Toc_Type = TocValues, Toc_Count = 1, Toc_Offset = 56\<rparr>,
      \<lparr>Toc_Type = TocValues, Toc_Count = 1, Toc_Offset = 64\<rparr>]"

section \<open>Notions of the specification and test data\<close>

text \<open>
  The representable range of a numeric metric type, as the specification speaks of it:
  the bounds of the four integer types, and for the two floating-point types the largest
  finite magnitudes of IEEE-754 single and double precision, which are integers.
\<close>

definition MaxFloat32 :: int where "MaxFloat32 = 2 ^ 128 - 2 ^ 104"
definition MaxFloat64 :: int where "MaxFloat64 = 2 ^ 1024 - 2 ^ 971"

definition type_range :: "MetricType \<Rightarrow> (int \<times> int) option" where
  "type_range t =
     (if t = Int32Type then Some (MinInt32, MaxInt32)
      else if t = Uint32Type then Some (0, MaxUint32)
      else if t = Int64Type then Some (MinInt64, MaxInt64)
      else if t = Uint64Type then Some (0, MaxUint64)
      else if t = FloatType then Some (- MaxFloat32, MaxFloat32)
      else if t = DoubleType then Some (- MaxFloat64, MaxFloat64)
      else None)"

definition in_range :: "MetricType \<Rightarrow> int \<Rightarrow> bool" where
  "in_range t v = (case type_range t of Some (lo, hi) \<Rightarrow> lo \<le> v \<and> v \<le> hi | None \<Rightarrow> False)"

definition integer_type :: "MetricType \<Rightarrow> bool" where
  "integer_type t \<longleftrightarrow> t = Int32Type \<or> t = Uint32Type \<or> t = Int64Type \<or> t = Uint64Type"

text \<open>The values whose dynamic type is one of the six integer types.\<close>

fun integer_val :: "gval \<Rightarrow> bool" where
  "integer_val (VInt _) = True"
| "integer_val (VInt32 _) = True"
| "integer_val (VInt64 _) = True"
| "integer_val (VUint _) = True"
| "integer_val (VUint32 _) = True"
| "integer_val (VUint64 _) = True"
| "integer_val _ = False"

text \<open>A buffer that keeps the list of the writes made to it, each with its type.\<close>

definition recording :: "gval list Buffer" where
  "recording =
     \<lparr>WriteInt32 = (\<lambda>w b. b @ [VInt32 w]), WriteInt64 = (\<lambda>w b. b @ [VInt64 w]),
      WriteUint32 = (\<lambda>w b. b @ [VUint32 w]), WriteUint64 = (\<lambda>w b. b @ [VUint64 w])\<rparr>"

text \<open>
  The value narrowed by a metric type, as the specification speaks of it: the
  conversion \<open>WriteVal\<close> applies to the value before it writes it (\<open>int32(val.(int))\<close>
  and the like), which turns an \<open>int\<close> or \<open>uint\<close> into the fixed-width type of the
  metric and leaves a value of a fixed-width type as it is.
\<close>

definition narrow :: "MetricType \<Rightarrow> gval \<Rightarrow> gval" where
  "narrow m val =
     (case val of
        VInt v \<Rightarrow>
          (if m = Int32Type then VInt32 (ucast v)
           else if m = Int64Type then VInt64 v
           else if m = Uint32Type then VUint32 (ucast v)
           else if m = Uint64Type then VUint64 v
           else val)
      | VUint v \<Rightarrow>
          (if m = Uint32Type then VUint32 (ucast v)
           else if m = Uint64Type then VUint64 v
           else val)
      | _ \<Rightarrow> val)"

text \<open>
  The counter of the HTTP example: value \<open>0\<close> of type \<open>int\<close>, type \<open>Int32Type\<close>, no
  instance domain, strings kept as they are, and a hash that is constantly zero.
\<close>

definition http_requests :: "(unit, string) PCPMetric" where
  "http_requests =
     \<lparr>m_val = VInt 0,
      m_desc = \<lparr>md_id = 0, md_name = ''http.requests'', md_indom = (), md_t = Int32Type,
                md_sem = CounterSemantics, md_u = Count OneUnit, md_offset = 0,
                md_shortDescription = ''Number of Requests'', md_longDescription = []\<rparr>,
      m_offset = 0\<rparr>"

section \<open>Compatibility of values and types\<close>

lemmas MetricType_defs =
  NoSupportType_def Int32Type_def Uint32Type_def Int64Type_def Uint64Type_def
  FloatType_def DoubleType_def StringType_def AggregateType_def AggregateStaticType_def
  EventType_def HighresEventType_def UnknownType_def

lemmas limit_defs =
  MaxInt32_def MinInt32_def MaxUint32_def MaxInt64_def MinInt64_def MaxUint64_def

lemma sint64_bounds: "- (2 ^ 63) \<le> sint (v :: 64 word) \<and> sint v \<le> 2 ^ 63 - 1"
  using sint_ge [of v] sint_lt [of v] by simp

text \<open>The third case of the \<open>switch\<close> on an \<open>int\<close> holds of every value that reaches it.\<close>

lemma uint32_conversion_le: "uint (ucast (v :: 64 word) :: 32 word) \<le> MaxUint32"
  using uint_lt2p [of "ucast v :: 32 word"] by (simp add: MaxUint32_def)

lemma IsCompatible_VInt:
  "IsCompatible m (VInt v) =
     (if sint v < 0 then m = Int32Type \<or> m = Int64Type
      else if sint v \<le> MaxInt32 then integer_type m
      else m = Int64Type \<or> m = Uint32Type \<or> m = Uint64Type)"
  by (auto simp: IsCompatible_def uint32_conversion_le integer_type_def)

text \<open>
  Claim C2, as stated: for every \<open>int\<close> \<open>v\<close> and every numeric metric type \<open>t\<close>,
  \<open>IsCompatible(t, v)\<close> holds exactly if \<open>v\<close> is in the representable range of \<open>t\<close>. It
  fails in three places: \<open>FloatType\<close> rejects the \<open>int\<close> 5, which its range contains;
  \<open>Uint32Type\<close> accepts \<open>2^40\<close> and \<open>Int32Type\<close> accepts \<open>-2^40\<close>, which their ranges do
  not contain.
\<close>

theorem IsCompatible_int_not_range:
  "\<not> (IsCompatible FloatType (VInt 5) \<longleftrightarrow> in_range FloatType (sint (5 :: 64 word))) \<and>
   \<not> (IsCompatible Uint32Type (VInt 1099511627776)
        \<longleftrightarrow> in_range Uint32Type (sint (1099511627776 :: 64 word))) \<and>
   \<not> (IsCompatible Int32Type (VInt (- 1099511627776))
        \<longleftrightarrow> in_range Int32Type (sint (- 1099511627776 :: 64 word)))"
  by (simp add: IsCompatible_VInt in_range_def type_range_def MetricType_defs limit_defs
      MaxFloat32_def integer_type_def)

text \<open>
  Claim C2, amended: for an \<open>int\<close> \<open>v\<close> and one of the four integer metric types \<open>t\<close>,
  \<open>IsCompatible(t, v)\<close> holds exactly if \<open>v\<close> is in the range of \<open>t\<close>, except where \<open>t\<close>
  is \<open>Int32Type\<close> and \<open>v\<close> is below \<open>MinInt32\<close> and where \<open>t\<close> is \<open>Uint32Type\<close> and \<open>v\<close> is
  above \<open>MaxUint32\<close>, of which nothing is said; every type that is not an integer type
  rejects every \<open>int\<close>; the unsigned types reject every negative \<open>int\<close>.
\<close>

theorem IsCompatible_int_range:
  "(integer_type t \<and> \<not> (t = Int32Type \<and> sint v < MinInt32) \<and>
      \<not> (t = Uint32Type \<and> MaxUint32 < sint v)
      \<longrightarrow> (IsCompatible t (VInt v) \<longleftrightarrow> in_range t (sint v))) \<and>
   (\<not> integer_type t \<longrightarrow> \<not> IsCompatible t (VInt v)) \<and>
   (sint v < 0 \<longrightarrow> \<not> IsCompatible Uint32Type (VInt v) \<and> \<not> IsCompatible Uint64Type (VInt v))"
  using sint64_bounds [of v]
  by (auto simp: IsCompatible_VInt in_range_def type_range_def MetricType_defs limit_defs
      integer_type_def)

theorem IsCompatible_int_range_witness:
  "IsCompatible Uint32Type (VInt 4294967295) \<and> in_range Uint32Type 4294967295 \<and>
   \<not> IsCompatible Int32Type (VInt 1099511627776) \<and>
   \<not> in_range Int32Type 1099511627776 \<and>
   IsCompatible Int32Type (VInt (- 2147483648)) \<and> in_range Int32Type (- 2147483648) \<and>
   \<not> IsCompatible FloatType (VInt 5) \<and> \<not> IsCompatible Uint64Type (VInt (- 1))"
  using IsCompatible_int_range [of Uint32Type 4294967295]
    IsCompatible_int_range [of Int32Type 1099511627776]
    IsCompatible_int_range [of Int32Type "- 2147483648"]
    IsCompatible_int_range [of FloatType 5]
    IsCompatible_int_range [of Uint64Type "- 1"]
  by (simp add: MetricType_defs limit_defs integer_type_def in_range_def type_range_def)

text \<open>
  Claim C6 asks that \<open>StringType\<close> accept every string. The type switch has no case for
  \<open>string\<close>: a string falls to the default and is rejected by every metric type,
  \<open>StringType\<close> among them, where the package's test expects
  \<open>StringType.IsCompatible("10")\<close> to hold.
\<close>

theorem IsCompatible_string_rejected:
  "\<not> IsCompatible StringType (VString ''10'') \<and> \<not> IsCompatible t (VString s)"
  by (simp add: IsCompatible_def)

section \<open>Writing a value\<close>

text \<open>
  Claim C10: \<open>WriteVal\<close> leaves the buffer as it is when the value's dynamic type is none
  of the six integer types, when the value is an \<open>int\<close> and the metric type none of the
  four integer types, and when the value is a \<open>uint\<close> and the metric type neither
  \<open>Uint32Type\<close> nor \<open>Uint64Type\<close>. No method of the buffer is called.
\<close>

theorem WriteVal_no_write:
  "(\<not> integer_val v \<longrightarrow> WriteVal B t v b = b) \<and>
   (\<not> integer_type t \<longrightarrow> WriteVal B t (VInt x) b = b) \<and>
   (t \<noteq> Uint32Type \<and> t \<noteq> Uint64Type \<longrightarrow> WriteVal B t (VUint y) b = b)"
  by (cases v) (auto simp: WriteVal_def integer_type_def)

theorem WriteVal_no_write_witness:
  "WriteVal recording Int32Type (VString ''7'') [] = [] \<and>
   WriteVal recording FloatType (VInt 7) [] = [] \<and>
   WriteVal recording Int32Type (VUint 7) [] = [] \<and>
   WriteVal recording Int32Type (VInt 7) [] = [VInt32 7]"
  using WriteVal_no_write [of "VString ''7''" recording Int32Type "[]" 7 7]
    WriteVal_no_write [of "VString ''7''" recording FloatType "[]" 7 7]
  by (simp add: MetricType_defs integer_type_def WriteVal_def recording_def)

section \<open>Units\<close>

text \<open>
  The seven fields make up the whole word: two words with the same fields are equal.
\<close>

lemma unit_fields_inj: "unit_fields w = unit_fields w' \<Longrightarrow> w = w'"
proof (rule bit_word_eqI)
  fix n assume a: "unit_fields w = unit_fields w'" and n: "n < LENGTH(32)"
  from a have f: "\<And>k. k \<in> {28, 24, 20, 16, 12, 8}
      \<Longrightarrow> take_bit 4 (drop_bit k w) = take_bit 4 (drop_bit k w')"
    and g: "take_bit 8 w = take_bit 8 w'"
    by (auto simp: unit_fields_def field4_def word_unat_eq_iff)
  have h: "bit w (k + m) = bit w' (k + m)"
    if k: "k \<in> {28, 24, 20, 16, 12, 8}" and m: "m < 4" for k m
  proof -
    have "bit (take_bit 4 (drop_bit k w)) m = bit (take_bit 4 (drop_bit k w')) m"
      using f [OF k] by simp
    with m show ?thesis
      by (simp add: bit_take_bit_iff bit_drop_bit_eq)
  qed
  have l: "bit w m = bit w' m" if m: "m < 8" for m
  proof -
    have "bit (take_bit 8 w) m = bit (take_bit 8 w') m" using g by simp
    with m show ?thesis by (simp add: bit_take_bit_iff)
  qed
  from n have "n < 8 \<or> (8 \<le> n \<and> n < 8 + 4) \<or> (12 \<le> n \<and> n < 12 + 4) \<or>
    (16 \<le> n \<and> n < 16 + 4) \<or> (20 \<le> n \<and> n < 20 + 4) \<or> (24 \<le> n \<and> n < 24 + 4) \<or>
    (28 \<le> n \<and> n < 28 + 4)"
    by auto
  then consider "n < 8" | k where "k \<in> {28, 24, 20, 16, 12, 8::nat}" "k \<le> n" "n < k + 4"
    by blast
  then show "bit w n = bit w' n"
  proof cases
    case 1
    then show ?thesis by (rule l)
  next
    case 2
    then have "n - k < 4" by simp
    from h [OF 2(1) this] 2(2) show ?thesis by simp
  qed
qed


text \<open>
  Claim C7: the PMAPI word of every declared unit has the value 1 in the dimension field
  of its kind (bit 28 for space, bit 24 for time, bit 20 for count, and no other bit of
  a dimension field), its scale in the scale field of its kind, and zero everywhere
  else; \<open>ByteUnit\<close> is \<open>1<<28\<close>, \<open>KilobyteUnit\<close> is \<open>1<<28 | 1<<16\<close>, \<open>NanosecondUnit\<close> is
  \<open>1<<24\<close> and \<open>OneUnit\<close> is \<open>1<<20\<close>.
\<close>

theorem PMAPI_fields:
  "map PMAPI space_units =
     [0x10000000, 0x10010000, 0x10020000, 0x10030000, 0x10040000, 0x10050000,
      0x10060000] \<and>
   map PMAPI time_units =
     [0x01000000, 0x01001000, 0x01002000, 0x01003000, 0x01004000, 0x01005000] \<and>
   map PMAPI count_units = [0x00100000] \<and>
   map (unit_fields \<circ> PMAPI) space_units =
     [(1, 0, 0, 0, 0, 0, 0), (1, 0, 0, 1, 0, 0, 0), (1, 0, 0, 2, 0, 0, 0),
      (1, 0, 0, 3, 0, 0, 0), (1, 0, 0, 4, 0, 0, 0), (1, 0, 0, 5, 0, 0, 0),
      (1, 0, 0, 6, 0, 0, 0)] \<and>
   map (unit_fields \<circ> PMAPI) time_units =
     [(0, 1, 0, 0, 0, 0, 0), (0, 1, 0, 0, 1, 0, 0), (0, 1, 0, 0, 2, 0, 0),
      (0, 1, 0, 0, 3, 0, 0), (0, 1, 0, 0, 4, 0, 0), (0, 1, 0, 0, 5, 0, 0)] \<and>
   map (unit_fields \<circ> PMAPI) count_units = [(0, 0, 1, 0, 0, 0, 0)] \<and>
   PMAPI (Space ByteUnit) = 2 ^ 28 \<and>
   PMAPI (Space KilobyteUnit) = 2 ^ 28 + 2 ^ 16 \<and>
   PMAPI (Time NanosecondUnit) = 2 ^ 24 \<and>
   PMAPI (Count OneUnit) = 2 ^ 20"
  by (simp add: space_units_def time_units_def count_units_def unit_fields_def field4_def
      ByteUnit_def KilobyteUnit_def MegabyteUnit_def GigabyteUnit_def TerabyteUnit_def
      PetabyteUnit_def ExabyteUnit_def NanosecondUnit_def MicrosecondUnit_def
      MillisecondUnit_def SecondUnit_def MinuteUnit_def HourUnit_def OneUnit_def)

section \<open>Setting and reading a metric\<close>

text \<open>
  What \<open>WriteVal\<close> writes for a compatible value is the narrowed value.
\<close>

lemma WriteVal_writes_narrowed:
  "IsCompatible m val \<Longrightarrow> WriteVal recording m val [] = [narrow m val]"
  by (cases val)
    (auto simp: IsCompatible_VInt integer_type_def IsCompatible_def WriteVal_def narrow_def
      recording_def MetricType_defs split: if_splits)




text \<open>
  Claim C5: \<open>Set\<close> returns an error exactly if the value is incompatible with the type
  of the metric, and then the metric is as before: \<open>Val\<close> returns what it returned
  before, and nothing was stored.
\<close>

theorem Set_error_iff_incompatible:
  "(snd (snd (Set M v)) \<noteq> None \<longleftrightarrow> \<not> IsCompatible (Type M) v) \<and>
   (snd (snd (Set M v)) \<noteq> None
      \<longrightarrow> Val (fst (Set M v)) = Val M \<and> fst (Set M v) = M \<and> fst (snd (Set M v)) = [])"
  by (simp add: Set_def Type_def Val_def)

theorem Set_error_iff_incompatible_witness:
  "snd (snd (Set http_requests (VString ''7''))) \<noteq> None \<and>
   \<not> IsCompatible (Type http_requests) (VString ''7'') \<and>
   Val (fst (Set http_requests (VString ''7''))) = VInt 0 \<and>
   fst (snd (Set http_requests (VString ''7''))) = []"
proof -
  have e: "snd (snd (Set http_requests (VString ''7''))) \<noteq> None"
    by (simp add: Set_def IsCompatible_def)
  from e Set_error_iff_incompatible [of http_requests "VString ''7''"] show ?thesis
    by (simp add: Val_def http_requests_def)
qed

text \<open>Every metric a program can hold stores a value compatible with its type.\<close>

lemma reachable_compatible: "reachable M \<Longrightarrow> IsCompatible (Type M) (Val M)"
proof (induction rule: reachable.induct)
  case (new getHash NewPCPString val name indom t s u short long m)
  then show ?case
    by (auto simp: NewPCPMetric_def newpcpMetricDesc_def Type_def Val_def split: if_splits)
next
  case (set m val)
  then show ?case by (simp add: Set_def Type_def Val_def)
qed

lemma reachable_http_requests: "reachable http_requests"
proof -
  have "NewPCPMetric (\<lambda>n b. 0) (\<lambda>s. s) (VInt 0) ''http.requests'' () Int32Type
          CounterSemantics (Count OneUnit) ''Number of Requests'' [] = Inr http_requests"
    by (simp add: NewPCPMetric_def newpcpMetricDesc_def http_requests_def IsCompatible_VInt
        MetricType_defs limit_defs integer_type_def)
  then show ?thesis by (rule reachable.new)
qed

text \<open>
  Claim C9: on a metric a program can hold, \<open>Set\<close> with the value already stored returns
  \<open>nil\<close>, performs no store and takes no lock; and a second \<open>Set\<close> with the same value
  right after a successful one does the same, leaving the metric as the first left it.
\<close>

theorem Set_same_value:
  assumes "reachable M"
  shows "(Val M = v \<longrightarrow> Set M v = (M, [], None)) \<and>
         (snd (snd (Set M v)) = None
            \<longrightarrow> Set (fst (Set M v)) v = (fst (Set M v), [], None))"
  using reachable_compatible [OF assms] by (simp add: Set_def Type_def Val_def)

theorem Set_same_value_witness:
  "reachable http_requests \<and> Val http_requests = VInt 0 \<and>
   Set http_requests (VInt 0) = (http_requests, [], None) \<and>
   fst (snd (Set http_requests (VInt 7))) = [Lock, Store (VInt 7), Unlock] \<and>
   snd (snd (Set http_requests (VInt 7))) = None \<and>
   Set (fst (Set http_requests (VInt 7))) (VInt 7) = (fst (Set http_requests (VInt 7)), [], None)"
proof -
  have v: "Val http_requests = VInt 0"
    by (simp add: Val_def http_requests_def)
  have s: "Set http_requests (VInt 7) =
             (http_requests\<lparr>m_val := VInt 7\<rparr>, [Lock, Store (VInt 7), Unlock], None)"
    by (simp add: Set_def http_requests_def IsCompatible_VInt MetricType_defs limit_defs
        integer_type_def)
  from v s reachable_http_requests
    Set_same_value [OF reachable_http_requests, of "VInt 0"]
    Set_same_value [OF reachable_http_requests, of "VInt 7"]
  show ?thesis by simp
qed

section \<open>The decoder\<close>

lemmas mmv1_simps = mmv1_def mmv1_asHeader_def mmv1_asToc_def le32_def le64_def MMV_def

lemmas Toc_defs = TocIndoms_def TocInstances_def TocMetrics_def TocValues_def TocStrings_def

text \<open>A passed length check bounds the length of the data from below.\<close>

lemma length_ge_of_not_less:
  assumes "\<not> (of_nat (length data) :: 64 word) < n"
  shows "unat n \<le> length data"
proof -
  from assms have "n \<le> of_nat (length data)" by simp
  then have "unat n \<le> unat (of_nat (length data) :: 64 word)"
    by (simp add: word_le_nat_alt)
  also have "\<dots> \<le> length data" by (simp add: unat_of_nat)
  finally show ?thesis .
qed

lemma readHeader_Inr:
  "readHeader L data = Inr h \<Longrightarrow>
     unat (HeaderLength L) \<le> length data \<and> h = asHeader L data \<and>
     take 3 (Magic h) = MMV \<and> G1 h = G2 h"
  by (auto simp: readHeader_def Let_def length_ge_of_not_less split: if_splits)

lemma Dump_Inr_header: "Dump L data = Inr d \<Longrightarrow> readHeader L data = Inr (dump_h d)"
  by (auto simp: Dump_def split: sum.splits option.splits)

text \<open>
  Claim C1, as stated: \<open>Dump\<close> succeeds only on a supported version and on generation
  words that are equal and not zero. On the 40 bytes of \<open>zero_generation\<close>, whose
  version byte and generation words are all zero, \<open>Dump\<close> succeeds and returns that
  header.
\<close>

theorem Dump_zero_generation:
  "Dump mmv1 zero_generation =
     Inr \<lparr>dump_h = \<lparr>Magic = MMV, Version = 0, G1 = 0, G2 = 0, Process = 0, Cluster = 0,
                     Flag = 0, Toc = 0\<rparr>,
          dump_tocs = [], dump_metrics = None, dump_values = None, dump_instances = None,
          dump_indoms = None, dump_strings = None\<rparr>"
proof -
  have "readHeader mmv1 zero_generation =
     Inr \<lparr>Magic = MMV, Version = 0, G1 = 0, G2 = 0, Process = 0, Cluster = 0, Flag = 0,
          Toc = 0\<rparr>"
    by (simp add: readHeader_def zero_generation_def mmv1_simps Let_def)
  then show ?thesis
    by (simp add: Dump_def readTocs_def readComponents_def no_components_def)
qed

text \<open>
  Claim C1, amended: \<open>Dump\<close> succeeds only if the region is at least as long as the
  header, the first three magic bytes are \<open>MMV\<close> and the two generation words are equal;
  the header it returns is the one at the start of the region and has \<open>G1 = G2\<close>. This
  holds whatever the layout of the structs is.
\<close>

theorem Dump_succeeds_only_if:
  "Dump L data = Inr d \<Longrightarrow>
     unat (HeaderLength L) \<le> length data \<and> dump_h d = asHeader L data \<and>
     take 3 (Magic (dump_h d)) = MMV \<and> G1 (dump_h d) = G2 (dump_h d)"
  using readHeader_Inr [OF Dump_Inr_header] by blast

lemma readHeader_one_value:
  "readHeader mmv1 one_value =
     Inr \<lparr>Magic = MMV, Version = 1, G1 = 1, G2 = 1, Process = 0, Cluster = 0, Flag = 0,
          Toc = 1\<rparr>"
  by (simp add: readHeader_def one_value_def mmv1_simps Let_def)

lemma readTocs_one_value:
  "readTocs mmv1 one_value 1 = Inr [\<lparr>Toc_Type = 4, Toc_Count = 1, Toc_Offset = 56\<rparr>]"
  by (simp add: readTocs_def readToc_def one_value_def mmv1_simps)

lemma readValues_one_value:
  "readValues mmv1 one_value 56 1 =
     Inr [56 \<mapsto> [7, 0, 0, 0, 0, 0, 0, 0, 0, 0, 0, 0, 0, 0, 0, 0]]"
  by (simp add: readValues_def readRecords_def readValue_def one_value_def mmv1_def)

lemma Dump_one_value:
  "Dump mmv1 one_value =
     Inr \<lparr>dump_h = \<lparr>Magic = MMV, Version = 1, G1 = 1, G2 = 1, Process = 0, Cluster = 0,
                     Flag = 0, Toc = 1\<rparr>,
          dump_tocs = [\<lparr>Toc_Type = 4, Toc_Count = 1, Toc_Offset = 56\<rparr>],
          dump_metrics = None,
          dump_values = Some [56 \<mapsto> [7, 0, 0, 0, 0, 0, 0, 0, 0, 0, 0, 0, 0, 0, 0, 0]],
          dump_instances = None, dump_indoms = None, dump_strings = None\<rparr>"
  by (simp add: Dump_def readHeader_one_value readTocs_one_value readComponents_def
      no_components_def readValues_one_value Toc_defs known_type_def)

theorem Dump_succeeds_only_if_witness:
  "Dump mmv1 one_value =
     Inr \<lparr>dump_h = \<lparr>Magic = MMV, Version = 1, G1 = 1, G2 = 1, Process = 0, Cluster = 0,
                     Flag = 0, Toc = 1\<rparr>,
          dump_tocs = [\<lparr>Toc_Type = 4, Toc_Count = 1, Toc_Offset = 56\<rparr>],
          dump_metrics = None,
          dump_values = Some [56 \<mapsto> [7, 0, 0, 0, 0, 0, 0, 0, 0, 0, 0, 0, 0, 0, 0, 0]],
          dump_instances = None, dump_indoms = None, dump_strings = None\<rparr> \<and>
   unat (HeaderLength mmv1) \<le> length one_value \<and>
   asHeader mmv1 one_value =
     \<lparr>Magic = MMV, Version = 1, G1 = 1, G2 = 1, Process = 0, Cluster = 0, Flag = 0,
      Toc = 1\<rparr>"
  using Dump_one_value Dump_succeeds_only_if [OF Dump_one_value] by simp

subsection \<open>Records past the end of the region\<close>

text \<open>
  Where the sum of offset and record length does not wrap, the length check is the
  check of the mathematical sum, and a record that passes it lies within the region.
\<close>

lemma length_check_no_wrap:
  assumes "unat offset + unat n < 2 ^ 64" and "length data < 2 ^ 64"
  shows "((of_nat (length data) :: 64 word) < offset + n) = (length data < unat offset + unat n)"
proof -
  from assms(1) have "unat (offset + n) = unat offset + unat n"
    by (simp add: unat_word_ariths)
  moreover from assms(2) have "unat (of_nat (length data) :: 64 word) = length data"
    by (simp add: unat_of_nat)
  ultimately show ?thesis by (simp add: word_less_nat_alt)
qed

lemma readInstance_no_wrap:
  assumes "unat offset + unat (InstanceLength L) < 2 ^ 64" and "length data < 2 ^ 64"
    and "0 < unat (InstanceLength L)"
  shows "readInstance L data offset =
     (if length data < unat offset + unat (InstanceLength L)
      then Inl (Error ''Incomplete/Partially Written Instance'')
      else Inr (take (unat (InstanceLength L)) (drop (unat offset) data)))"
  using assms(3) by (auto simp: readInstance_def length_check_no_wrap [OF assms(1,2)])

lemma readToc_no_wrap:
  assumes "unat offset + unat (TocLength L) < 2 ^ 64" and "length data < 2 ^ 64"
    and "0 < unat (TocLength L)"
  shows "readToc L data offset =
     (if length data < unat offset + unat (TocLength L)
      then Inl (Error ''Incomplete/Partially Written TOC'')
      else Inr (asToc L (drop (unat offset) data)))"
  using assms(3) by (auto simp: readToc_def length_check_no_wrap [OF assms(1,2)])

lemma Dump_truncated:
  "Dump mmv1 (butlast one_value) = Inl (Error ''Incomplete/Partially Written Value'')"
  by (simp add: Dump_def readHeader_def readTocs_def readToc_def one_value_def mmv1_simps
      Let_def readComponents_def no_components_def readValues_def readRecords_def
      readValue_def Toc_defs known_type_def)

lemma Dump_negative_count:
  "Dump mmv1 negative_count = Inl (Panic ''makeslice: len out of range'')"
  by (simp add: Dump_def readHeader_def negative_count_def mmv1_simps Let_def readTocs_def)

lemma readInstance_wrapping:
  "readInstance mmv1 wrapping_offset (- 80) = Inl (Panic ''index out of range'')"
  by (simp add: readInstance_def wrapping_offset_def mmv1_def)

lemma readInstances_wrapping:
  "readInstances mmv1 wrapping_offset (- 80) 1 = Inl (Panic ''index out of range'')"
  by (simp add: readInstances_def readRecords_def readInstance_wrapping)

lemma readHeader_wrapping_offset:
  "readHeader mmv1 wrapping_offset =
     Inr \<lparr>Magic = MMV, Version = 1, G1 = 1, G2 = 1, Process = 0, Cluster = 0, Flag = 0,
          Toc = 1\<rparr>"
  by (simp add: readHeader_def wrapping_offset_def mmv1_simps Let_def)

lemma readTocs_wrapping_offset:
  "readTocs mmv1 wrapping_offset 1 =
     Inr [\<lparr>Toc_Type = 2, Toc_Count = 1, Toc_Offset = - 80\<rparr>]"
  by (simp add: readTocs_def readToc_def wrapping_offset_def mmv1_simps)

text \<open>
  Claim C3 asks for an error, and never a panic, whenever a record would reach past the
  end of the region. The readers compare the length with the wrapped sum of offset and
  record length. The 56 bytes of \<open>wrapping_offset\<close> announce one instance record of 80
  bytes at offset \<open>2^64 - 80\<close>: the sum wraps to 0, the check passes, and taking the
  address of \<open>data[offset]\<close> panics, in \<open>readInstance\<close> and so in \<open>Dump\<close>.
\<close>

theorem Dump_wrapping_offset_panics:
  "readInstance mmv1 wrapping_offset (- 80) = Inl (Panic ''index out of range'') \<and>
   Dump mmv1 wrapping_offset = Inl (Panic ''index out of range'')"
  by (simp add: readInstance_wrapping Dump_def readHeader_wrapping_offset
      readTocs_wrapping_offset readComponents_def no_components_def readInstances_wrapping
      Toc_defs)

subsection \<open>The order of the goroutines\<close>

lemma readValues_one_value_64:
  "readValues mmv1 one_value 64 1 = Inl (Error ''Incomplete/Partially Written Value'')"
  by (simp add: readValues_def readRecords_def readValue_def one_value_def mmv1_def)

text \<open>
  Claim C8 asks that \<open>readComponents\<close> return what a decode of the TOC entries one after
  the other in their order returns, whatever the interleaving. Two entries of the same
  section type start two goroutines that assign the same two result variables, and the
  one that runs last decides. On \<open>one_value\<close> with \<open>two_value_tocs\<close> the decode in order
  ends with no map and the error of the second entry; with the second goroutine run
  first it ends with the map of the first entry and no error.
\<close>

theorem readComponents_order_matters:
  "readComponents mmv1 one_value two_value_tocs =
     Inr (no_components\<lparr>verr := Some ''Incomplete/Partially Written Value''\<rparr>) \<and>
   readComponents_scheduled mmv1 one_value two_value_tocs [0, 1] =
     Inr (no_components\<lparr>verr := Some ''Incomplete/Partially Written Value''\<rparr>) \<and>
   readComponents_scheduled mmv1 one_value two_value_tocs [1, 0] =
     Inr (no_components
           \<lparr>c_values := Some [56 \<mapsto> [7, 0, 0, 0, 0, 0, 0, 0, 0, 0, 0, 0, 0, 0, 0, 0]]\<rparr>)"
  by (simp add: readComponents_scheduled_def readComponents_def two_value_tocs_def
      readValues_one_value readValues_one_value_64 Toc_defs known_type_def no_components_def)

end
